theory Spec2Isabelle
  imports Main "HOL-Library.Word" "HOL-Library.Sublist"
begin

section \<open>JavaScript values used by server.js\<close>

subsection \<open>Strings\<close>

text \<open>
  A JavaScript string is a sequence of UTF-16 code units; \<open>length\<close> and \<open>substring\<close>
  count code units. String literals of the source that are plain ASCII are written with
  \<open>lit\<close>; the box-drawing characters, the bullet, the en dash and the other symbols of
  the templates are given by their code units.
\<close>

type_synonym code_unit = "16 word"
type_synonym jsstring = "code_unit list"

definition lit :: "string \<Rightarrow> jsstring" where
  "lit s = map of_char s"

text \<open>
  A value that may be \<open>undefined\<close> (a form field that was not submitted, an environment
  variable that is not set) is an option. Interpolating it in a template literal applies
  \<open>String\<close>, which prints \<open>undefined\<close> as the word itself.
\<close>

definition String_of :: "jsstring option \<Rightarrow> jsstring" where
  "String_of v = (case v of None \<Rightarrow> lit ''undefined'' | Some s \<Rightarrow> s)"

text \<open>
  \<open>String.prototype.substring(indexStart, indexEnd)\<close>: both indices are clamped to
  \<open>[0, length]\<close> and swapped when the first is the larger one.
\<close>

definition substring :: "jsstring \<Rightarrow> int \<Rightarrow> int \<Rightarrow> jsstring" where
  "substring s indexStart indexEnd =
     (let len = int (length s);
          a = min (max indexStart 0) len;
          b = min (max indexEnd 0) len;
          from = min a b;
          to = max a b
      in take (nat (to - from)) (drop (nat from) s))"

subsection \<open>Numbers\<close>

text \<open>
  A JavaScript number is an IEEE 754 double. \<open>Integer n\<close> is the double of the integer
  \<open>n\<close>; \<open>Double w\<close> is the double with the 64 bits \<open>w\<close>, which covers the fractions,
  the large magnitudes, the infinities and NaN. The safe integers are those of magnitude
  at most \<open>2^53 - 1\<close> (\<open>Number.isSafeInteger\<close>): each is a double, and the sum of two of
  them is computed exactly when it is safe itself. This much of the arithmetic is modelled.
  What \<open>+\<close> and \<open>toLocaleString\<close> do on any other operand, and what \<open>+\<close> rounds an
  unsafe sum to, is the runtime's and is a parameter of the model.
\<close>

datatype js_number = Integer int | Double "64 word"

record number_runtime =
  double_add :: "js_number \<Rightarrow> js_number \<Rightarrow> js_number"
  double_toLocaleString :: "js_number \<Rightarrow> jsstring"

definition safe_integer :: "int \<Rightarrow> bool" where
  "safe_integer n = (\<bar>n\<bar> \<le> 2 ^ 53 - 1)"

fun js_add :: "number_runtime \<Rightarrow> js_number \<Rightarrow> js_number \<Rightarrow> js_number" where
  "js_add nr (Integer a) (Integer b) =
     (if safe_integer a \<and> safe_integer b \<and> safe_integer (a + b) then Integer (a + b)
      else double_add nr (Integer a) (Integer b))"
| "js_add nr x y = double_add nr x y"

text \<open>
  \<open>Number.prototype.toString\<close> prints the decimal digits of an integer.
  \<open>Number.prototype.toLocaleString\<close> is taken in the \<open>en-US\<close> locale, which prints a
  safe integer with its digits grouped in threes separated by commas.
\<close>

definition digit :: "nat \<Rightarrow> code_unit" where
  "digit d = of_nat (48 + d)"

function decimal :: "nat \<Rightarrow> jsstring" where
  "decimal n = (if n < 10 then [digit n] else decimal (n div 10) @ [digit (n mod 10)])"
  by pat_completeness auto
termination
  by (relation "measure (\<lambda>n. n)") auto

definition Number_toString :: "int \<Rightarrow> jsstring" where
  "Number_toString n = (if n < 0 then lit ''-'' else []) @ decimal (nat \<bar>n\<bar>)"

definition three_digits :: "nat \<Rightarrow> jsstring" where
  "three_digits n = [digit (n div 100 mod 10), digit (n div 10 mod 10), digit (n mod 10)]"

function grouped :: "nat \<Rightarrow> jsstring" where
  "grouped n =
     (if n < 1000 then decimal n
      else grouped (n div 1000) @ lit '','' @ three_digits (n mod 1000))"
  by pat_completeness auto
termination
  by (relation "measure (\<lambda>n. n)") auto

fun toLocaleString :: "number_runtime \<Rightarrow> js_number \<Rightarrow> jsstring" where
  "toLocaleString nr (Integer n) =
     (if safe_integer n then (if n < 0 then lit ''-'' else []) @ grouped (nat \<bar>n\<bar>)
      else double_toLocaleString nr (Integer n))"
| "toLocaleString nr (Double w) = double_toLocaleString nr (Double w)"

subsection \<open>Dates\<close>

text \<open>
  \<open>new Date()\<close> reads the system clock. Of the value read, the source uses the result
  of \<open>toLocaleDateString()\<close> and of \<open>getFullYear()\<close> only. A clock gives the date
  returned by the k-th read within one call.
\<close>

record js_date =
  toLocaleDateString :: jsstring
  getFullYear :: int

type_synonym clock = "nat \<Rightarrow> js_date"

subsection \<open>Arrays\<close>

text \<open>
  \<open>Array.prototype.forEach\<close> calls the callback on each element with its index, in
  order; the callbacks of the source update the variable \<open>report\<close>, which is the state
  passed along. \<open>Array.prototype.reduce\<close> with an initial value is a left fold.
\<close>

fun forEach :: "('a \<Rightarrow> nat \<Rightarrow> 's \<Rightarrow> 's) \<Rightarrow> 'a list \<Rightarrow> nat \<Rightarrow> 's \<Rightarrow> 's" where
  "forEach f [] idx s = s"
| "forEach f (x # xs) idx s = forEach f xs (Suc idx) (f x idx s)"

definition reduce :: "('b \<Rightarrow> 'a \<Rightarrow> 'b) \<Rightarrow> 'b \<Rightarrow> 'a list \<Rightarrow> 'b" where
  "reduce f init xs = foldl f init xs"

section \<open>The cost estimate returned by the analyzer\<close>

record inspection_item =
  section_number :: jsstring
  description :: jsstring

record repair_category =
  category_name :: jsstring
  inspection_items :: "inspection_item list"
  handyman_cost :: js_number
  contractor_cost :: js_number
  recommended_trade :: jsstring

record analysis =
  repair_categories :: "repair_category list"
  termites_mentioned :: bool
  pests_mentioned :: bool
  rot_mentioned :: bool

section \<open>generateReportText\<close>

definition double_rule :: jsstring where
  "double_rule = replicate 43 0x2550"

definition heavy_rule :: jsstring where
  "heavy_rule = replicate 40 0x2501"

definition light_rule :: jsstring where
  "light_rule = replicate 43 0x2500"

text \<open>The callback of the inner \<open>forEach\<close> over the inspection items of a category.\<close>

definition item_callback :: "inspection_item \<Rightarrow> nat \<Rightarrow> jsstring \<Rightarrow> jsstring" where
  "item_callback item idx report =
     report @ lit ''  '' @ [0x2022] @ lit '' Section '' @ section_number item
       @ lit '' '' @ [0x2013] @ lit '' '' @ description item @ lit ''\<newline>''"

text \<open>
  The callback of the outer \<open>forEach\<close>; \<open>len\<close> is \<open>analysis.repair_categories.length\<close>.
  The comparison \<open>idx < length - 1\<close> is on JavaScript numbers, so \<open>length - 1\<close> is
  \<open>-1\<close> for the empty array.
\<close>

definition category_callback ::
  "number_runtime \<Rightarrow> nat \<Rightarrow> repair_category \<Rightarrow> nat \<Rightarrow> jsstring \<Rightarrow> jsstring" where
  "category_callback nr len cat idx report0 =
     (let report = report0 @ category_name cat @ lit ''\<newline>\<newline>'';
          report = report @ lit ''Estimated Range: Handyman to Contractor\<newline>'';
          report = report @ lit ''  Handyman Cost:   $''
                     @ toLocaleString nr (handyman_cost cat) @ lit ''\<newline>'';
          report = report @ lit ''  Contractor Cost: $''
                     @ toLocaleString nr (contractor_cost cat) @ lit ''\<newline>\<newline>'';
          report = report @ lit ''Referenced inspection items:\<newline>'';
          report = forEach item_callback (inspection_items cat) 0 report;
          report = report @ lit ''\<newline>Recommended Trade: '' @ recommended_trade cat
                     @ lit ''\<newline>''
      in if int idx < int len - 1
         then report @ lit ''\<newline>'' @ light_rule @ lit ''\<newline>\<newline>''
         else report)"

text \<open>The template literal that initialises \<open>report\<close> (lines 152 to 172).\<close>

definition report_header ::
  "js_date \<Rightarrow> jsstring option \<Rightarrow> jsstring option \<Rightarrow> jsstring option \<Rightarrow> jsstring" where
  "report_header today firstName lastName propertyAddress =
     double_rule @ lit ''\<newline>''
     @ lit ''         THE REPAIR INTEL\<newline>''
     @ lit ''   COST ANALYSIS INTELLIGENCE REPORT\<newline>''
     @ double_rule @ lit ''\<newline>''
     @ lit ''\<newline>''
     @ lit ''PREPARED FOR:      '' @ String_of firstName @ lit '' '' @ String_of lastName
     @ lit ''\<newline>''
     @ lit ''PROPERTY ADDRESS:  '' @ String_of propertyAddress @ lit ''\<newline>''
     @ lit ''DATE PREPARED:     '' @ toLocaleDateString today @ lit ''\<newline>''
     @ lit ''PREPARED BY:       Anarumo Inspection Services\<newline>''
     @ lit ''\<newline>''
     @ heavy_rule @ lit ''\<newline>''
     @ lit ''\<newline>''
     @ lit ''EXECUTIVE SUMMARY\<newline>''
     @ lit ''\<newline>''
     @ lit ''This intelligence report provides repair cost estimates \<newline>''
     @ lit ''based on your home inspection findings. Costs are shown \<newline>''
     @ lit ''as HANDYMAN to CONTRACTOR ranges.\<newline>''
     @ lit ''\<newline>''
     @ double_rule @ lit ''\<newline>''
     @ lit ''\<newline>''"

text \<open>
  The template literal appended after the loop (lines 193 to 204): the totals, then the
  copyright line with the year.
\<close>

definition totals_section :: "number_runtime \<Rightarrow> js_number \<Rightarrow> js_number \<Rightarrow> jsstring" where
  "totals_section nr totalHandyman totalContractor =
     lit ''\<newline>'' @ double_rule @ lit ''\<newline>''
     @ lit ''\<newline>''
     @ lit ''TOTAL ESTIMATED REPAIR RANGE\<newline>''
     @ lit ''\<newline>''
     @ lit ''Handyman Total:   $'' @ toLocaleString nr totalHandyman @ lit ''\<newline>''
     @ lit ''Contractor Total: $'' @ toLocaleString nr totalContractor @ lit ''\<newline>''
     @ lit ''\<newline>''
     @ lit ''Note: These estimates are for negotiation context only.\<newline>''
     @ lit ''\<newline>''
     @ double_rule @ lit ''\<newline>''"

definition copyright_line :: "js_date \<Rightarrow> jsstring" where
  "copyright_line today =
     [0xA9] @ lit '' '' @ Number_toString (getFullYear today) @ lit '' The Repair Intel\<newline>''"

definition report_footer ::
  "number_runtime \<Rightarrow> js_date \<Rightarrow> js_number \<Rightarrow> js_number \<Rightarrow> jsstring" where
  "report_footer nr today totalHandyman totalContractor =
     totals_section nr totalHandyman totalContractor @ copyright_line today"

text \<open>
  The function reads the clock twice: for the date line of the header and for the year
  of the copyright line. Its sums are JavaScript additions starting from the number 0.
\<close>

definition generateReportText ::
  "number_runtime \<Rightarrow> clock \<Rightarrow> jsstring option \<Rightarrow> jsstring option \<Rightarrow> jsstring option
     \<Rightarrow> analysis \<Rightarrow> jsstring" where
  "generateReportText nr new_Date firstName lastName propertyAddress analysis =
     (let report = report_header (new_Date 0) firstName lastName propertyAddress;
          report = forEach (category_callback nr (length (repair_categories analysis)))
                     (repair_categories analysis) 0 report;
          totalHandyman =
            reduce (\<lambda>sum cat. js_add nr sum (handyman_cost cat)) (Integer 0)
              (repair_categories analysis);
          totalContractor =
            reduce (\<lambda>sum cat. js_add nr sum (contractor_cost cat)) (Integer 0)
              (repair_categories analysis);
          report = report @ report_footer nr (new_Date 1) totalHandyman totalContractor
      in report)"

subsection \<open>The layout of the report\<close>

text \<open>
  The report as the specification describes it: one block per category, a separator
  between two consecutive blocks, none after the last, and totals that are the sums of
  the costs, added as JavaScript adds numbers, from 0 and in the order of the list. These
  definitions are what \<open>generateReportText\<close> is compared with.
\<close>

definition js_sum :: "number_runtime \<Rightarrow> js_number list \<Rightarrow> js_number" where
  "js_sum nr xs = foldl (js_add nr) (Integer 0) xs"

definition item_line :: "inspection_item \<Rightarrow> jsstring" where
  "item_line item =
     lit ''  '' @ [0x2022] @ lit '' Section '' @ section_number item
     @ lit '' '' @ [0x2013] @ lit '' '' @ description item @ lit ''\<newline>''"

definition category_block :: "number_runtime \<Rightarrow> repair_category \<Rightarrow> jsstring" where
  "category_block nr cat =
     category_name cat @ lit ''\<newline>\<newline>''
     @ lit ''Estimated Range: Handyman to Contractor\<newline>''
     @ lit ''  Handyman Cost:   $'' @ toLocaleString nr (handyman_cost cat) @ lit ''\<newline>''
     @ lit ''  Contractor Cost: $'' @ toLocaleString nr (contractor_cost cat)
     @ lit ''\<newline>\<newline>''
     @ lit ''Referenced inspection items:\<newline>''
     @ concat (map item_line (inspection_items cat))
     @ lit ''\<newline>Recommended Trade: '' @ recommended_trade cat @ lit ''\<newline>''"

definition separator :: jsstring where
  "separator = lit ''\<newline>'' @ light_rule @ lit ''\<newline>\<newline>''"

fun separated :: "jsstring \<Rightarrow> jsstring list \<Rightarrow> jsstring" where
  "separated sep [] = []"
| "separated sep [b] = b"
| "separated sep (b # b' # bs) = b @ sep @ separated sep (b' # bs)"

section \<open>The process-report handler and its collaborators\<close>

subsection \<open>Errors\<close>

text \<open>
  Every rejection and every exception of the handler is an \<open>Error\<close> object, of which the
  handler reads the message. An awaited call returns either the error it rejects with
  (\<open>Inl\<close>) or its value (\<open>Inr\<close>); a call awaited for its effect only returns
  \<open>Some\<close> error or \<open>None\<close>.
\<close>

datatype js_error = Error (message: jsstring)

subsection \<open>The analyzer\<close>

record chat_message =
  role :: jsstring
  content :: jsstring

record messages_request =
  model :: jsstring
  max_tokens :: nat
  messages :: "chat_message list"

record content_block =
  text_field :: "jsstring option"

record api_message =
  content_blocks :: "content_block list"

text \<open>The template literal of lines 103 to 121, with the truncated inspection text.\<close>

definition analysis_prompt :: "jsstring \<Rightarrow> jsstring" where
  "analysis_prompt pdfText =
     lit ''Analyze this home inspection report and create repair cost estimates.\<newline>''
     @ lit ''        \<newline>''
     @ lit ''Return JSON with this structure:\<newline>''
     @ lit ''{\<newline>''
     @ lit ''  '' @ [0x0022] @ lit ''repair_categories'' @ [0x0022] @ lit '': [\<newline>''
     @ lit ''    {\<newline>''
     @ lit ''      '' @ [0x0022] @ lit ''category_name'' @ [0x0022] @ lit '': '' @ [0x0022]
       @ lit ''string'' @ [0x0022] @ lit '',\<newline>''
     @ lit ''      '' @ [0x0022] @ lit ''inspection_items'' @ [0x0022] @ lit '': [{'' @ [0x0022]
       @ lit ''section_number'' @ [0x0022] @ lit '': '' @ [0x0022] @ lit ''string'' @ [0x0022]
       @ lit '', '' @ [0x0022] @ lit ''description'' @ [0x0022] @ lit '': '' @ [0x0022]
       @ lit ''string'' @ [0x0022] @ lit ''}],\<newline>''
     @ lit ''      '' @ [0x0022] @ lit ''handyman_cost'' @ [0x0022] @ lit '': number,\<newline>''
     @ lit ''      '' @ [0x0022] @ lit ''contractor_cost'' @ [0x0022] @ lit '': number,\<newline>''
     @ lit ''      '' @ [0x0022] @ lit ''recommended_trade'' @ [0x0022] @ lit '': '' @ [0x0022]
       @ lit ''string'' @ [0x0022] @ lit ''\<newline>''
     @ lit ''    }\<newline>''
     @ lit ''  ],\<newline>''
     @ lit ''  '' @ [0x0022] @ lit ''termites_mentioned'' @ [0x0022] @ lit '': boolean,\<newline>''
     @ lit ''  '' @ [0x0022] @ lit ''pests_mentioned'' @ [0x0022] @ lit '': boolean,\<newline>''
     @ lit ''  '' @ [0x0022] @ lit ''rot_mentioned'' @ [0x0022] @ lit '': boolean\<newline>''
     @ lit ''}\<newline>''
     @ lit ''\<newline>''
     @ lit ''Inspection text: '' @ substring pdfText 0 40000"

definition analysis_request :: "jsstring \<Rightarrow> messages_request" where
  "analysis_request pdfText =
     \<lparr>model = lit ''claude-sonnet-4-20250514'',
      max_tokens = 4000,
      messages = [\<lparr>role = lit ''user'', content = analysis_prompt pdfText\<rparr>]\<rparr>"

subsection \<open>The reports table\<close>

text \<open>
  A row of the table \<open>reports\<close> as an INSERT can supply it: every column is nullable.
  The columns \<open>id\<close> and \<open>created_at\<close> are filled in by the database and are left
  out. The columns whose names are also fields of the request or of the analysis carry
  the suffix \<open>_col\<close>.
\<close>

record report_row =
  first_name :: "jsstring option"
  last_name :: "jsstring option"
  email_col :: "jsstring option"
  phone_col :: "jsstring option"
  property_address :: "jsstring option"
  payment_id :: "jsstring option"
  payment_amount :: "int option"
  report_data :: "jsstring option"
  termites_mentioned_col :: "bool option"
  pests_mentioned_col :: "bool option"
  rot_mentioned_col :: "bool option"

subsection \<open>Mail\<close>

record attachment =
  filename :: jsstring
  attachment_content :: jsstring

record mail =
  mail_from :: jsstring
  mail_to :: "jsstring option"
  subject :: jsstring
  html :: jsstring
  attachments :: "attachment list"

subsection \<open>Collaborators and server state\<close>

record environment =
  FROM_EMAIL :: "jsstring option"
  ADMIN_EMAIL :: "jsstring option"

text \<open>
  What the libraries and services outside server.js answer: the text \<open>pdfParse\<close>
  extracts (the field \<open>text\<close> of its result), the reply of \<open>anthropic.messages.create\<close>,
  \<open>JSON.parse\<close> (a \<open>SyntaxError\<close> or an estimate of the schema the prompt asks for)
  and \<open>JSON.stringify\<close>, the outcome of the INSERT queued by \<open>db.run\<close>, the outcome
  of \<open>transporter.sendMail\<close>, the clock, the arithmetic of the runtime and
  \<open>process.env\<close>.

  The INSERT runs in the background. When it fails, its error is emitted as an
  \<open>error\<close> event once the handler has given up control, that is while it awaits a
  send or after it has answered; \<open>insert_error_after\<close> is the number of awaited sends
  that complete before the event is emitted.
\<close>

record services =
  pdfParse :: "8 word list \<Rightarrow> js_error + jsstring"
  messages_create :: "messages_request \<Rightarrow> js_error + api_message"
  JSON_parse :: "jsstring \<Rightarrow> js_error + analysis"
  JSON_stringify :: "analysis \<Rightarrow> jsstring"
  db_run :: "report_row \<Rightarrow> js_error option"
  insert_error_after :: nat
  sendMail :: "mail \<Rightarrow> js_error option"
  new_Date :: clock
  numbers :: number_runtime
  env :: environment

text \<open>
  The state the handler acts on: the rows of the table, the mails handed to
  \<open>transporter.sendMail\<close> in the order of the calls, the errors written by
  \<open>console.error\<close>, and whether the server process is still running.
\<close>

record server_state =
  reports :: "report_row list"
  sendMail_calls :: "mail list"
  console :: "js_error list"
  running :: bool

text \<open>
  \<open>db.run\<close> is called without a callback and is not awaited: the call returns at once
  and the row is stored when the INSERT succeeds. When the INSERT fails, no callback
  receives the error and server.js registers no listener for the \<open>error\<close> event, so
  the event is an uncaught exception and ends the process: while the handler awaits its
  send number \<open>k\<close> when \<open>insert_error_after\<close> is \<open>k\<close>, and after the handler has
  answered when it got that far.
\<close>

definition db_run_insert :: "services \<Rightarrow> report_row \<Rightarrow> server_state \<Rightarrow> server_state" where
  "db_run_insert sv row s =
     s\<lparr>reports := reports s @ (case db_run sv row of None \<Rightarrow> [row] | Some err \<Rightarrow> [])\<rparr>"

definition error_event_during :: "services \<Rightarrow> report_row \<Rightarrow> nat \<Rightarrow> bool" where
  "error_event_during sv row k = (db_run sv row \<noteq> None \<and> insert_error_after sv = k)"

definition process_exits :: "server_state \<Rightarrow> server_state" where
  "process_exits s = s\<lparr>running := False\<rparr>"

definition after_answer :: "services \<Rightarrow> report_row \<Rightarrow> server_state \<Rightarrow> server_state" where
  "after_answer sv row s = (if db_run sv row = None then s else process_exits s)"

definition transporter_sendMail ::
  "services \<Rightarrow> mail \<Rightarrow> server_state \<Rightarrow> js_error option \<times> server_state" where
  "transporter_sendMail sv m s = (sendMail sv m, s\<lparr>sendMail_calls := sendMail_calls s @ [m]\<rparr>)"

definition from_header :: "services \<Rightarrow> jsstring" where
  "from_header sv =
     [0x0022] @ lit ''The Repair Intel'' @ [0x0022] @ lit '' <'' @ String_of (FROM_EMAIL (env sv))
     @ lit ''>''"

definition client_mail ::
  "services \<Rightarrow> jsstring option \<Rightarrow> jsstring option \<Rightarrow> jsstring option \<Rightarrow> jsstring \<Rightarrow> mail" where
  "client_mail sv email name address reportText =
     \<lparr>mail_from = from_header sv,
      mail_to = email,
      subject = lit ''Your Repair Intel Report - '' @ String_of address,
      html =
        lit ''<h2>Hi '' @ String_of name @ lit '',</h2>\<newline>''
        @ lit ''           <p>Your Repair Intel report for '' @ String_of address
        @ lit '' is ready!</p>\<newline>''
        @ lit ''           <p>See attached PDF.</p>\<newline>''
        @ lit ''           <p>Best,<br>The Repair Intel Team</p>'',
      attachments =
        [\<lparr>filename = lit ''RepairIntel_Report.txt'', attachment_content = reportText\<rparr>]\<rparr>"

definition sendClientEmail ::
  "services \<Rightarrow> jsstring option \<Rightarrow> jsstring option \<Rightarrow> jsstring option \<Rightarrow> jsstring
     \<Rightarrow> server_state \<Rightarrow> js_error option \<times> server_state" where
  "sendClientEmail sv email name address reportText s =
     transporter_sendMail sv (client_mail sv email name address reportText) s"

definition admin_mail ::
  "services \<Rightarrow> jsstring option \<Rightarrow> jsstring option \<Rightarrow> jsstring option \<Rightarrow> jsstring option
     \<Rightarrow> jsstring option \<Rightarrow> analysis \<Rightarrow> mail" where
  "admin_mail sv firstName lastName email phone address analysis =
     \<lparr>mail_from = from_header sv,
      mail_to = FROM_EMAIL (env sv),
      subject = [0x2705] @ lit '' New Report Generated - $49.99'',
      html =
        lit ''<h3>NEW CUSTOMER</h3>\<newline>''
        @ lit ''           <p><strong>Name:</strong> '' @ String_of firstName @ lit '' ''
        @ String_of lastName @ lit ''</p>\<newline>''
        @ lit ''           <p><strong>Email:</strong> '' @ String_of email @ lit ''</p>\<newline>''
        @ lit ''           <p><strong>Phone:</strong> '' @ String_of phone @ lit ''</p>\<newline>''
        @ lit ''           <p><strong>Property:</strong> '' @ String_of address @ lit ''</p>'',
      attachments = []\<rparr>"

definition sendAdminEmail ::
  "services \<Rightarrow> jsstring option \<Rightarrow> jsstring option \<Rightarrow> jsstring option \<Rightarrow> jsstring option
     \<Rightarrow> jsstring option \<Rightarrow> analysis \<Rightarrow> server_state \<Rightarrow> js_error option \<times> server_state" where
  "sendAdminEmail sv firstName lastName email phone address analysis s =
     transporter_sendMail sv (admin_mail sv firstName lastName email phone address analysis) s"

definition green_mantis_mail ::
  "services \<Rightarrow> jsstring option \<Rightarrow> jsstring option \<Rightarrow> jsstring option \<Rightarrow> jsstring option
     \<Rightarrow> jsstring option \<Rightarrow> analysis \<Rightarrow> mail" where
  "green_mantis_mail sv firstName lastName email phone address analysis =
     \<lparr>mail_from = from_header sv,
      mail_to = ADMIN_EMAIL (env sv),
      subject = [0xD83D, 0xDC1C] @ lit '' Pest Lead - '' @ String_of address,
      html =
        lit ''<h3>NEW PEST OPPORTUNITY</h3>\<newline>''
        @ lit ''           <p><strong>Client:</strong> '' @ String_of firstName @ lit '' ''
        @ String_of lastName @ lit ''</p>\<newline>''
        @ lit ''           <p><strong>Phone:</strong> '' @ String_of phone @ lit ''</p>\<newline>''
        @ lit ''           <p><strong>Email:</strong> '' @ String_of email @ lit ''</p>\<newline>''
        @ lit ''           <p><strong>Property:</strong> '' @ String_of address @ lit ''</p>\<newline>''
        @ lit ''           <p><strong>Findings:</strong> Pest/termite activity detected</p>'',
      attachments = []\<rparr>"

definition sendGreenMantisEmail ::
  "services \<Rightarrow> jsstring option \<Rightarrow> jsstring option \<Rightarrow> jsstring option \<Rightarrow> jsstring option
     \<Rightarrow> jsstring option \<Rightarrow> analysis \<Rightarrow> server_state \<Rightarrow> js_error option \<times> server_state" where
  "sendGreenMantisEmail sv firstName lastName email phone address analysis s =
     transporter_sendMail sv
       (green_mantis_mail sv firstName lastName email phone address analysis) s"

subsection \<open>Requests and responses\<close>

record upload =
  buffer :: "8 word list"

text \<open>
  The multipart request: the five text fields of \<open>req.body\<close> and the uploaded file
  \<open>req.file\<close>, each \<open>undefined\<close> when the form did not carry it.
\<close>

record request =
  firstName :: "jsstring option"
  lastName :: "jsstring option"
  email :: "jsstring option"
  phone :: "jsstring option"
  propertyAddress :: "jsstring option"
  file_field :: "upload option"

text \<open>
  \<open>res.json({ success: true, report })\<close> answers with status 200,
  \<open>res.status(500).json({ error })\<close> with status 500.
\<close>

datatype response_body = Success_report jsstring | Error_message jsstring

record response =
  status :: nat
  body :: response_body

subsection \<open>The handler\<close>

text \<open>
  Lines 86 to 125: the upload is read, its text extracted, the analyzer asked and its
  reply parsed. Nothing here writes to the server state. Reading \<open>buffer\<close> of a
  missing file and \<open>text\<close> of a missing first content block throw a \<open>TypeError\<close>;
  \<open>JSON.parse\<close> converts its argument to a string first.
\<close>

definition request_analysis :: "services \<Rightarrow> request \<Rightarrow> js_error + analysis" where
  "request_analysis sv req =
     (case file_field req of
        None \<Rightarrow>
          Inl (Error (lit ''Cannot read properties of undefined (reading '' @ [0x0027]
                 @ lit ''buffer'' @ [0x0027] @ lit '')''))
      | Some upl \<Rightarrow>
          (case pdfParse sv (buffer upl) of
             Inl error \<Rightarrow> Inl error
           | Inr pdfText \<Rightarrow>
               (case messages_create sv (analysis_request pdfText) of
                  Inl error \<Rightarrow> Inl error
                | Inr reply \<Rightarrow>
                    (case content_blocks reply of
                       [] \<Rightarrow>
                         Inl (Error (lit ''Cannot read properties of undefined (reading ''
                                @ [0x0027] @ lit ''text'' @ [0x0027] @ lit '')''))
                     | block # rest \<Rightarrow> JSON_parse sv (String_of (text_field block))))))"

text \<open>The parameters of the INSERT of lines 131 to 134; the statement names nine columns.\<close>

definition insert_row :: "services \<Rightarrow> request \<Rightarrow> analysis \<Rightarrow> report_row" where
  "insert_row sv req analysis =
     \<lparr>first_name = firstName req,
      last_name = lastName req,
      email_col = email req,
      phone_col = phone req,
      property_address = propertyAddress req,
      payment_id = None,
      payment_amount = None,
      report_data = Some (JSON_stringify sv analysis),
      termites_mentioned_col = Some (termites_mentioned analysis),
      pests_mentioned_col = Some (pests_mentioned analysis),
      rot_mentioned_col = Some (rot_mentioned analysis)\<rparr>"

text \<open>
  How the try block ends: it returns the report, it throws, or the process has exited
  before it could do either.
\<close>

datatype completion = Returns jsstring | Throws js_error | Process_exit

text \<open>
  Lines 127 to 144: the report is generated, the INSERT is queued, the mails are sent one
  after the other, each awaited, and the report is the value of the block. Each send hands
  its mail to the transporter and then awaits the outcome; while it waits, the error event
  of a failed INSERT may end the process. An error of a send leaves the block at once.
\<close>

definition deliver_report ::
  "services \<Rightarrow> request \<Rightarrow> analysis \<Rightarrow> server_state \<Rightarrow> completion \<times> server_state" where
  "deliver_report sv req analysis s =
     (let reportText =
            generateReportText (numbers sv) (new_Date sv) (firstName req) (lastName req)
              (propertyAddress req) analysis;
          row = insert_row sv req analysis;
          s1 = db_run_insert sv row s
      in case sendClientEmail sv (email req) (firstName req) (propertyAddress req) reportText s1 of
           (outcome1, s2) \<Rightarrow>
             if error_event_during sv row 0 then (Process_exit, process_exits s2)
             else
               (case outcome1 of
                  Some error \<Rightarrow> (Throws error, after_answer sv row s2)
                | None \<Rightarrow>
                    (case sendAdminEmail sv (firstName req) (lastName req) (email req) (phone req)
                            (propertyAddress req) analysis s2 of
                       (outcome2, s3) \<Rightarrow>
                         if error_event_during sv row 1 then (Process_exit, process_exits s3)
                         else
                           (case outcome2 of
                              Some error \<Rightarrow> (Throws error, after_answer sv row s3)
                            | None \<Rightarrow>
                                if termites_mentioned analysis \<or> pests_mentioned analysis
                                then
                                  (case sendGreenMantisEmail sv (firstName req) (lastName req)
                                          (email req) (phone req) (propertyAddress req)
                                          analysis s3 of
                                     (outcome3, s4) \<Rightarrow>
                                       if error_event_during sv row 2
                                       then (Process_exit, process_exits s4)
                                       else
                                         (case outcome3 of
                                            Some error \<Rightarrow>
                                              (Throws error, after_answer sv row s4)
                                          | None \<Rightarrow>
                                              (Returns reportText, after_answer sv row s4)))
                                else (Returns reportText, after_answer sv row s3)))))"

definition try_block ::
  "services \<Rightarrow> request \<Rightarrow> server_state \<Rightarrow> completion \<times> server_state" where
  "try_block sv req s =
     (case request_analysis sv req of
        Inl error \<Rightarrow> (Throws error, s)
      | Inr analysis \<Rightarrow> deliver_report sv req analysis s)"

text \<open>
  The handler of \<open>POST /api/process-report\<close>: the try block and its catch. The answer
  is \<open>None\<close> when the process has exited before answering.
\<close>

definition process_report ::
  "services \<Rightarrow> request \<Rightarrow> server_state \<Rightarrow> response option \<times> server_state" where
  "process_report sv req s =
     (case try_block sv req s of
        (Returns reportText, s') \<Rightarrow>
          (Some \<lparr>status = 200, body = Success_report reportText\<rparr>, s')
      | (Throws error, s') \<Rightarrow>
          (Some \<lparr>status = 500, body = Error_message (message error)\<rparr>,
           s'\<lparr>console := console s' @ [error]\<rparr>)
      | (Process_exit, s') \<Rightarrow> (None, s'))"

subsection \<open>What one run adds to the state\<close>

text \<open>
  The handler only appends to the table and to the list of mails; the rows and the mails
  of one run are what it has appended.
\<close>

definition run_rows :: "services \<Rightarrow> request \<Rightarrow> server_state \<Rightarrow> report_row list" where
  "run_rows sv req s = drop (length (reports s)) (reports (snd (process_report sv req s)))"

definition run_mails :: "services \<Rightarrow> request \<Rightarrow> server_state \<Rightarrow> mail list" where
  "run_mails sv req s =
     drop (length (sendMail_calls s)) (sendMail_calls (snd (process_report sv req s)))"

text \<open>
  The report and the three mails of a run, as the handler builds them from the request
  and the estimate (lines 128, 137, 138 and 141).
\<close>

definition report_of :: "services \<Rightarrow> request \<Rightarrow> analysis \<Rightarrow> jsstring" where
  "report_of sv req estimate =
     generateReportText (numbers sv) (new_Date sv) (firstName req) (lastName req)
       (propertyAddress req) estimate"

definition client_mail_of :: "services \<Rightarrow> request \<Rightarrow> analysis \<Rightarrow> mail" where
  "client_mail_of sv req estimate =
     client_mail sv (email req) (firstName req) (propertyAddress req)
       (report_of sv req estimate)"

definition admin_mail_of :: "services \<Rightarrow> request \<Rightarrow> analysis \<Rightarrow> mail" where
  "admin_mail_of sv req estimate =
     admin_mail sv (firstName req) (lastName req) (email req) (phone req)
       (propertyAddress req) estimate"

definition lead_mail_of :: "services \<Rightarrow> request \<Rightarrow> analysis \<Rightarrow> mail" where
  "lead_mail_of sv req estimate =
     green_mantis_mail sv (firstName req) (lastName req) (email req) (phone req)
       (propertyAddress req) estimate"

text \<open>
  An awaited send resolves when the process is not ended while the handler waits for it
  and the transporter accepts the mail; it throws when the process is not ended and the
  transporter rejects the mail. The sends of a run are awaited in the order 0, 1, 2.
\<close>

definition send_resolves :: "services \<Rightarrow> request \<Rightarrow> analysis \<Rightarrow> nat \<Rightarrow> mail \<Rightarrow> bool" where
  "send_resolves sv req estimate k m =
     (\<not> error_event_during sv (insert_row sv req estimate) k \<and> sendMail sv m = None)"

definition send_throws ::
  "services \<Rightarrow> request \<Rightarrow> analysis \<Rightarrow> nat \<Rightarrow> mail \<Rightarrow> js_error \<Rightarrow> bool" where
  "send_throws sv req estimate k m err =
     (\<not> error_event_during sv (insert_row sv req estimate) k \<and> sendMail sv m = Some err)"

text \<open>The two answers of the handler.\<close>

definition success_response :: "jsstring \<Rightarrow> response" where
  "success_response reportText = \<lparr>status = 200, body = Success_report reportText\<rparr>"

definition failure_response :: "js_error \<Rightarrow> response" where
  "failure_response err = \<lparr>status = 500, body = Error_message (message err)\<rparr>"

section \<open>A sample submission\<close>

text \<open>
  The example of the specification: Jane Doe, 123 Main St, and an estimate with the single
  category Roof Repair. The collaborators of the sample are given by what \<open>JSON.parse\<close>
  answers, by the outcome of the INSERT, by the number of sends that complete before the
  error event of a failed INSERT, and by the outcome of each send. The sample uses safe
  integers only, so the part of the runtime that handles other doubles is never asked; its
  stand-in answers NaN.
\<close>

definition sample_numbers :: number_runtime where
  "sample_numbers =
     \<lparr>double_add = (\<lambda>x y. Double 0x7FF8000000000000),
      double_toLocaleString = (\<lambda>x. lit ''NaN'')\<rparr>"

definition roof_repair :: repair_category where
  "roof_repair =
     \<lparr>category_name = lit ''Roof Repair'',
      inspection_items =
        [\<lparr>section_number = lit ''3.2'', description = lit ''Missing shingles''\<rparr>],
      handyman_cost = Integer 500,
      contractor_cost = Integer 1200,
      recommended_trade = lit ''Roofer''\<rparr>"

definition roof_estimate :: "bool \<Rightarrow> bool \<Rightarrow> bool \<Rightarrow> analysis" where
  "roof_estimate termites pests rot =
     \<lparr>repair_categories = [roof_repair],
      termites_mentioned = termites,
      pests_mentioned = pests,
      rot_mentioned = rot\<rparr>"

definition jan_15 :: js_date where
  "jan_15 = \<lparr>toLocaleDateString = lit ''1/15/2025'', getFullYear = 2025\<rparr>"

definition fixed_clock :: "js_date \<Rightarrow> clock" where
  "fixed_clock today = (\<lambda>k. today)"

definition jane :: request where
  "jane =
     \<lparr>firstName = Some (lit ''Jane''),
      lastName = Some (lit ''Doe''),
      email = Some (lit ''jane@example.com''),
      phone = Some (lit ''555-0100''),
      propertyAddress = Some (lit ''123 Main St''),
      file_field = Some \<lparr>buffer = [0x25, 0x50, 0x44, 0x46]\<rparr>\<rparr>"

definition sample_services ::
  "(js_error + analysis) \<Rightarrow> js_error option \<Rightarrow> nat \<Rightarrow> (mail \<Rightarrow> js_error option)
     \<Rightarrow> services" where
  "sample_services parsed insert_outcome delay send_outcome =
     \<lparr>pdfParse = (\<lambda>pdfBuffer. Inr (lit ''3.2 Roof: missing shingles'')),
      messages_create = (\<lambda>rq. Inr \<lparr>content_blocks = [\<lparr>text_field = Some (lit ''{}'')\<rparr>]\<rparr>),
      JSON_parse = (\<lambda>txt. parsed),
      JSON_stringify = (\<lambda>estimate. lit ''{}''),
      db_run = (\<lambda>row. insert_outcome),
      insert_error_after = delay,
      sendMail = send_outcome,
      new_Date = fixed_clock jan_15,
      numbers = sample_numbers,
      env = \<lparr>FROM_EMAIL = Some (lit ''reports@example.com''),
             ADMIN_EMAIL = Some (lit ''leads@example.com'')\<rparr>\<rparr>"

definition idle :: server_state where
  "idle = \<lparr>reports = [], sendMail_calls = [], console = [], running = True\<rparr>"

text \<open>
  Four settings of the sample collaborators: everything succeeds; the reply of the analyzer
  is not JSON; the INSERT fails and its error event is emitted after the given number of
  awaited sends; the mail server refuses every send.
\<close>

definition services_ok :: "analysis \<Rightarrow> services" where
  "services_ok estimate = sample_services (Inr estimate) None 0 (\<lambda>m. None)"

definition services_unparseable :: services where
  "services_unparseable =
     sample_services (Inl (Error (lit ''Unexpected end of JSON input''))) None 0 (\<lambda>m. None)"


definition services_mail_refused :: "analysis \<Rightarrow> services" where
  "services_mail_refused estimate =
     sample_services (Inr estimate) None 0 (\<lambda>m. Some (Error (lit ''connect ECONNREFUSED'')))"

section \<open>Properties of the report\<close>

subsection \<open>Loops and sums\<close>

lemma forEach_item_callback:
  "forEach item_callback items idx report = report @ concat (map item_line items)"
  by (induction items arbitrary: idx report) (simp_all add: item_callback_def item_line_def)

lemma category_callback_block:
  "category_callback nr len cat idx report =
     report @ category_block nr cat @ (if int idx < int len - 1 then separator else [])"
  by (simp add: category_callback_def category_block_def separator_def forEach_item_callback Let_def)

lemma forEach_category_callback:
  "idx + length cats = len \<Longrightarrow>
   forEach (category_callback nr len) cats idx report =
     report @ separated separator (map (category_block nr) cats)"
proof (induction cats arbitrary: idx report)
  case Nil
  then show ?case by simp
next
  case (Cons cat cats)
  have step: "Suc idx + length cats = len"
    using Cons.prems by simp
  have "forEach (category_callback nr len) (cat # cats) idx report =
          category_callback nr len cat idx report
          @ separated separator (map (category_block nr) cats)"
    by (simp only: forEach.simps Cons.IH [OF step])
  also have "\<dots> = report @ separated separator (map (category_block nr) (cat # cats))"
  proof (cases cats)
    case Nil
    with Cons.prems have "\<not> int idx < int len - 1" by simp
    with Nil show ?thesis by (simp add: category_callback_block)
  next
    case (Cons cat' cats')
    with step have "int idx < int len - 1" by simp
    with Cons show ?thesis by (simp add: category_callback_block)
  qed
  finally show ?case .
qed

lemma reduce_js_sum:
  "reduce (\<lambda>sum cat. js_add nr sum (f cat)) (Integer 0) cats = js_sum nr (map f cats)"
proof -
  have "foldl (\<lambda>sum cat. js_add nr sum (f cat)) x cats = foldl (js_add nr) x (map f cats)" for x
    by (induction cats arbitrary: x) simp_all
  then show ?thesis by (simp add: reduce_def js_sum_def)
qed

lemma generateReportText_layout:
  "generateReportText nr clk fn ln pa a =
     report_header (clk 0) fn ln pa
     @ separated separator (map (category_block nr) (repair_categories a))
     @ report_footer nr (clk 1)
         (js_sum nr (map handyman_cost (repair_categories a)))
         (js_sum nr (map contractor_cost (repair_categories a)))"
  by (simp add: generateReportText_def Let_def reduce_js_sum forEach_category_callback)

lemma safe_integer_0: "safe_integer 0"
  by (simp add: safe_integer_def)

lemma toLocaleString_0: "toLocaleString nr (Integer 0) = lit ''0''"
  by (simp add: safe_integer_0 lit_def digit_def)

lemma safe_integer_between:
  "0 \<le> n \<Longrightarrow> n \<le> m \<Longrightarrow> safe_integer m \<Longrightarrow> safe_integer n"
  by (simp add: safe_integer_def)

text \<open>
  Adding non-negative safe integers whose sum is safe never leaves the safe integers, so
  every addition of the fold is exact.
\<close>

lemma foldl_js_add_exact:
  "0 \<le> i \<Longrightarrow> \<forall>n \<in> set ns. 0 \<le> n \<Longrightarrow> safe_integer (i + sum_list ns) \<Longrightarrow>
   foldl (js_add nr) (Integer i) (map Integer ns) = Integer (i + sum_list ns)"
proof (induction ns arbitrary: i)
  case Nil
  then show ?case by simp
next
  case (Cons n ns)
  have n: "0 \<le> n" and rest: "\<forall>n \<in> set ns. 0 \<le> n"
    using Cons.prems(2) by simp_all
  have tail: "0 \<le> sum_list ns"
    using rest by (simp add: sum_list_nonneg)
  have total: "safe_integer (i + n + sum_list ns)"
    using Cons.prems(3) by (simp add: add.assoc)
  have "safe_integer i"
    using Cons.prems(1) n tail total
    by (intro safe_integer_between [of i "i + n + sum_list ns"]) simp_all
  moreover have "safe_integer n"
    using Cons.prems(1) n tail total
    by (intro safe_integer_between [of n "i + n + sum_list ns"]) simp_all
  moreover have "safe_integer (i + n)"
    using Cons.prems(1) n tail total
    by (intro safe_integer_between [of "i + n" "i + n + sum_list ns"]) simp_all
  ultimately have "js_add nr (Integer i) (Integer n) = Integer (i + n)"
    by simp
  moreover have "0 \<le> i + n"
    using Cons.prems(1) n by simp
  ultimately show ?case
    using Cons.IH [of "i + n"] rest total by (simp add: add.assoc)
qed

lemma js_sum_exact:
  "\<forall>n \<in> set ns. 0 \<le> n \<Longrightarrow> safe_integer (sum_list ns) \<Longrightarrow>
   js_sum nr (map Integer ns) = Integer (sum_list ns)"
  using foldl_js_add_exact [of 0 ns nr] by (simp add: js_sum_def)

lemma sublist_inside: "sublist n b \<Longrightarrow> sublist n (a @ b @ c)"
proof -
  assume "sublist n b"
  then obtain ps ss where "b = ps @ n @ ss"
    by (auto simp: sublist_def)
  then have "a @ b @ c = (a @ ps) @ n @ (ss @ c)"
    by simp
  then show ?thesis
    unfolding sublist_def by blast
qed

text \<open>
  Claim C1. For an estimate with N categories the report is the header, then the N
  category blocks in the order of the list, two consecutive blocks separated by the
  separator and nothing after the last block, then the totals section and the copyright
  line. The two total lines print the sum of the handyman costs and the sum of the
  contractor costs, added as the code adds them: JavaScript additions from 0 in the order
  of the list. When the costs are non-negative integers whose sum is a safe integer, that
  sum is the exact integer sum, printed with its digits grouped in threes. For the empty
  list no block is rendered and both totals are 0, printed as \<open>0\<close>.
\<close>

theorem generateReportText_blocks_and_totals:
  "generateReportText nr clk fn ln pa a =
     report_header (clk 0) fn ln pa
     @ separated separator (map (category_block nr) (repair_categories a))
     @ totals_section nr
         (js_sum nr (map handyman_cost (repair_categories a)))
         (js_sum nr (map contractor_cost (repair_categories a)))
     @ copyright_line (clk 1)
   \<and> length (map (category_block nr) (repair_categories a)) = length (repair_categories a)
   \<and> sublist
       (lit ''Handyman Total:   $''
        @ toLocaleString nr (js_sum nr (map handyman_cost (repair_categories a)))
        @ lit ''\<newline>''
        @ lit ''Contractor Total: $''
        @ toLocaleString nr (js_sum nr (map contractor_cost (repair_categories a)))
        @ lit ''\<newline>'')
       (generateReportText nr clk fn ln pa a)
   \<and> (\<forall>hs. map handyman_cost (repair_categories a) = map Integer hs
            \<and> (\<forall>h \<in> set hs. 0 \<le> h) \<and> safe_integer (sum_list hs) \<longrightarrow>
          js_sum nr (map handyman_cost (repair_categories a)) = Integer (sum_list hs)
          \<and> toLocaleString nr (js_sum nr (map handyman_cost (repair_categories a))) =
              grouped (nat (sum_list hs)))
   \<and> (\<forall>cs. map contractor_cost (repair_categories a) = map Integer cs
            \<and> (\<forall>c \<in> set cs. 0 \<le> c) \<and> safe_integer (sum_list cs) \<longrightarrow>
          js_sum nr (map contractor_cost (repair_categories a)) = Integer (sum_list cs)
          \<and> toLocaleString nr (js_sum nr (map contractor_cost (repair_categories a))) =
              grouped (nat (sum_list cs)))
   \<and> generateReportText nr clk fn ln pa (a\<lparr>repair_categories := []\<rparr>) =
       report_header (clk 0) fn ln pa @ totals_section nr (Integer 0) (Integer 0)
       @ copyright_line (clk 1)
   \<and> toLocaleString nr (Integer 0) = lit ''0''"
proof -
  let ?h = "js_sum nr (map handyman_cost (repair_categories a))"
  let ?c = "js_sum nr (map contractor_cost (repair_categories a))"
  let ?lines = "lit ''Handyman Total:   $'' @ toLocaleString nr ?h @ lit ''\<newline>''
        @ lit ''Contractor Total: $'' @ toLocaleString nr ?c @ lit ''\<newline>''"
  have layout: "generateReportText nr clk fn ln pa a =
     report_header (clk 0) fn ln pa
     @ separated separator (map (category_block nr) (repair_categories a))
     @ totals_section nr ?h ?c @ copyright_line (clk 1)"
    by (simp add: generateReportText_layout report_footer_def)
  have count: "length (map (category_block nr) (repair_categories a)) = length (repair_categories a)"
    by simp
  have "totals_section nr ?h ?c =
          (lit ''\<newline>'' @ double_rule @ lit ''\<newline>'' @ lit ''\<newline>''
           @ lit ''TOTAL ESTIMATED REPAIR RANGE\<newline>'' @ lit ''\<newline>'')
          @ ?lines
          @ (lit ''\<newline>''
             @ lit ''Note: These estimates are for negotiation context only.\<newline>''
             @ lit ''\<newline>'' @ double_rule @ lit ''\<newline>'')"
    by (simp add: totals_section_def)
  then have "sublist ?lines (totals_section nr ?h ?c)"
    by (simp only: sublist_appendI)
  then have "sublist ?lines
      ((report_header (clk 0) fn ln pa
        @ separated separator (map (category_block nr) (repair_categories a)))
       @ totals_section nr ?h ?c @ copyright_line (clk 1))"
    by (rule sublist_inside)
  then have lines: "sublist ?lines (generateReportText nr clk fn ln pa a)"
    by (simp add: layout)
  have exact: "js_sum nr xs = Integer (sum_list ns)
      \<and> toLocaleString nr (js_sum nr xs) = grouped (nat (sum_list ns))"
    if "xs = map Integer ns \<and> (\<forall>n \<in> set ns. 0 \<le> n) \<and> safe_integer (sum_list ns)" for xs ns
  proof -
    from that have sum: "js_sum nr xs = Integer (sum_list ns)"
      by (simp add: js_sum_exact)
    from that have "0 \<le> sum_list ns"
      by (simp add: sum_list_nonneg)
    with that sum show ?thesis
      by simp
  qed
  have handyman: "\<forall>hs. map handyman_cost (repair_categories a) = map Integer hs
            \<and> (\<forall>h \<in> set hs. 0 \<le> h) \<and> safe_integer (sum_list hs) \<longrightarrow>
          ?h = Integer (sum_list hs) \<and> toLocaleString nr ?h = grouped (nat (sum_list hs))"
    using exact by blast
  have contractor: "\<forall>cs. map contractor_cost (repair_categories a) = map Integer cs
            \<and> (\<forall>c \<in> set cs. 0 \<le> c) \<and> safe_integer (sum_list cs) \<longrightarrow>
          ?c = Integer (sum_list cs) \<and> toLocaleString nr ?c = grouped (nat (sum_list cs))"
    using exact by blast
  have empty: "generateReportText nr clk fn ln pa (a\<lparr>repair_categories := []\<rparr>) =
       report_header (clk 0) fn ln pa @ totals_section nr (Integer 0) (Integer 0)
       @ copyright_line (clk 1)"
    by (simp add: generateReportText_layout report_footer_def js_sum_def)
  show ?thesis
    by (rule conjI [OF layout conjI [OF count conjI [OF lines conjI [OF handyman
          conjI [OF contractor conjI [OF empty toLocaleString_0]]]]]])
qed

theorem generateReportText_blocks_and_totals_witness:
  "map handyman_cost (repair_categories (roof_estimate False False False)) = map Integer [500]
   \<and> map contractor_cost (repair_categories (roof_estimate False False False)) =
       map Integer [1200]
   \<and> safe_integer (sum_list [500]) \<and> safe_integer (sum_list [1200])
   \<and> js_sum sample_numbers (map handyman_cost (repair_categories (roof_estimate False False False)))
       = Integer 500
   \<and> js_sum sample_numbers
        (map contractor_cost (repair_categories (roof_estimate False False False)))
       = Integer 1200
   \<and> toLocaleString sample_numbers
        (js_sum sample_numbers
           (map contractor_cost (repair_categories (roof_estimate False False False))))
       = lit ''1,200''"
proof -
  let ?a = "roof_estimate False False False"
  have h: "map handyman_cost (repair_categories ?a) = map Integer [500]"
    by (simp add: roof_estimate_def roof_repair_def)
  have c: "map contractor_cost (repair_categories ?a) = map Integer [1200]"
    by (simp add: roof_estimate_def roof_repair_def)
  have sh: "safe_integer (sum_list [500])" and sc: "safe_integer (sum_list [1200])"
    by (simp_all add: safe_integer_def)
  have nh: "\<forall>h \<in> set [500 :: int]. 0 \<le> h" and nc: "\<forall>c \<in> set [1200 :: int]. 0 \<le> c"
    by simp_all
  note inst = generateReportText_blocks_and_totals
    [of sample_numbers "fixed_clock jan_15" "firstName jane" "lastName jane"
        "propertyAddress jane" ?a]
  from inst h nh sh
  have "js_sum sample_numbers (map handyman_cost (repair_categories ?a)) = Integer (sum_list [500])"
    by blast
  then have th: "js_sum sample_numbers (map handyman_cost (repair_categories ?a)) = Integer 500"
    by simp
  have g: "grouped (nat (sum_list [1200 :: int])) = lit ''1,200''"
    by code_simp
  have s: "sum_list [1200 :: int] = 1200"
    by simp
  from inst c nc sc
  have both: "js_sum sample_numbers (map contractor_cost (repair_categories ?a)) = Integer (sum_list [1200])
      \<and> toLocaleString sample_numbers (js_sum sample_numbers (map contractor_cost (repair_categories ?a)))
          = grouped (nat (sum_list [1200]))"
    by blast
  from both have "js_sum sample_numbers (map contractor_cost (repair_categories ?a)) = Integer (sum_list [1200])"
    by (rule conjunct1)
  then have tc: "js_sum sample_numbers (map contractor_cost (repair_categories ?a)) = Integer 1200"
    by (simp only: s)
  from both have "toLocaleString sample_numbers
      (js_sum sample_numbers (map contractor_cost (repair_categories ?a))) =
      grouped (nat (sum_list [1200]))"
    by (rule conjunct2)
  from this g have pc: "toLocaleString sample_numbers
        (js_sum sample_numbers (map contractor_cost (repair_categories ?a))) = lit ''1,200''"
    by (rule trans)
  show ?thesis
    by (rule conjI [OF h conjI [OF c conjI [OF sh conjI [OF sc conjI [OF th conjI [OF tc pc]]]]]])
qed

subsection \<open>Determinism\<close>

text \<open>
  Claim C2. Two calls with the same first name, last name, property address and estimate,
  made while the clock stays at the same date, return the same string, code unit for code
  unit. The clock is the only input of the function besides its arguments and the
  arithmetic of the runtime.
\<close>

theorem generateReportText_deterministic:
  assumes "fn1 = fn2" and "ln1 = ln2" and "pa1 = pa2" and "a1 = a2"
    and "\<forall>k. clk1 k = today" and "\<forall>k. clk2 k = today"
  shows "generateReportText nr clk1 fn1 ln1 pa1 a1 = generateReportText nr clk2 fn2 ln2 pa2 a2"
proof -
  have "clk1 = clk2"
    using assms(5,6) by (simp add: fun_eq_iff)
  with assms(1-4) show ?thesis by simp
qed

theorem generateReportText_deterministic_witness:
  "(\<forall>k. fixed_clock jan_15 k = jan_15) \<and> (\<forall>k. (\<lambda>n. if n = 0 then jan_15 else jan_15) k = jan_15)
   \<and> generateReportText sample_numbers (fixed_clock jan_15) (firstName jane) (lastName jane)
        (propertyAddress jane) (roof_estimate True False False)
     = generateReportText sample_numbers (\<lambda>n. if n = 0 then jan_15 else jan_15) (firstName jane)
        (lastName jane) (propertyAddress jane) (roof_estimate True False False)"
proof -
  have c1: "\<forall>k. fixed_clock jan_15 k = jan_15"
    by (simp add: fixed_clock_def)
  have c2: "\<forall>k. (\<lambda>n. if n = 0 then jan_15 else jan_15) k = jan_15"
    by simp
  show ?thesis
    by (rule conjI [OF c1 conjI [OF c2
          generateReportText_deterministic [OF refl refl refl refl c1 c2]]])
qed

subsection \<open>The example of the specification\<close>

lemma roof_block_contains:
  "sublist (lit ''Roof Repair'') (category_block nr roof_repair)"
  "sublist (lit ''$500'') (category_block nr roof_repair)"
  "sublist (lit ''$1,200'') (category_block nr roof_repair)"
  "sublist (lit ''Section 3.2 '' @ [0x2013] @ lit '' Missing shingles'') (category_block nr roof_repair)"
  "sublist (lit ''Roofer'') (category_block nr roof_repair)"
  by code_simp+

lemma roof_totals_contain:
  "sublist (lit ''Handyman Total:   $500'') (totals_section nr (Integer 500) (Integer 1200))"
  "sublist (lit ''Contractor Total: $1,200'') (totals_section nr (Integer 500) (Integer 1200))"
  by code_simp+

lemma roof_report_layout:
  "generateReportText nr clk fn ln pa (roof_estimate t p r) =
     report_header (clk 0) fn ln pa @ category_block nr roof_repair
     @ (totals_section nr (Integer 500) (Integer 1200) @ copyright_line (clk 1))"
proof -
  have "js_sum nr [Integer 500] = Integer 500" "js_sum nr [Integer 1200] = Integer 1200"
    by (simp_all add: js_sum_def safe_integer_def)
  then show ?thesis
    by (simp add: generateReportText_layout report_footer_def roof_estimate_def roof_repair_def)
qed

lemma sublist_first: "sublist n b \<Longrightarrow> sublist n (b @ c)"
  using sublist_inside [of n b "[]" c] by simp

text \<open>
  Claim C3, as amended. For Jane Doe, 123 Main St and the estimate with the single category
  Roof Repair (handyman 500, contractor 1200, item 3.2 Missing shingles, trade Roofer), at
  any date and with any flags, the report contains \<open>Roof Repair\<close>, \<open>$500\<close>, \<open>$1,200\<close>,
  \<open>Section 3.2\<close>, an en dash, \<open>Missing shingles\<close>, \<open>Roofer\<close>, the line
  \<open>Handyman Total:\<close> followed by three spaces and \<open>$500\<close>, and
  \<open>Contractor Total: $1,200\<close>.
\<close>

theorem roof_report_contains:
  "sublist (lit ''Roof Repair'')
     (generateReportText nr clk (Some (lit ''Jane'')) (Some (lit ''Doe''))
        (Some (lit ''123 Main St'')) (roof_estimate t p r))
   \<and> sublist (lit ''$500'')
     (generateReportText nr clk (Some (lit ''Jane'')) (Some (lit ''Doe''))
        (Some (lit ''123 Main St'')) (roof_estimate t p r))
   \<and> sublist (lit ''$1,200'')
     (generateReportText nr clk (Some (lit ''Jane'')) (Some (lit ''Doe''))
        (Some (lit ''123 Main St'')) (roof_estimate t p r))
   \<and> sublist (lit ''Section 3.2 '' @ [0x2013] @ lit '' Missing shingles'')
     (generateReportText nr clk (Some (lit ''Jane'')) (Some (lit ''Doe''))
        (Some (lit ''123 Main St'')) (roof_estimate t p r))
   \<and> sublist (lit ''Roofer'')
     (generateReportText nr clk (Some (lit ''Jane'')) (Some (lit ''Doe''))
        (Some (lit ''123 Main St'')) (roof_estimate t p r))
   \<and> sublist (lit ''Handyman Total:   $500'')
     (generateReportText nr clk (Some (lit ''Jane'')) (Some (lit ''Doe''))
        (Some (lit ''123 Main St'')) (roof_estimate t p r))
   \<and> sublist (lit ''Contractor Total: $1,200'')
     (generateReportText nr clk (Some (lit ''Jane'')) (Some (lit ''Doe''))
        (Some (lit ''123 Main St'')) (roof_estimate t p r))"
proof -
  have block: "sublist n (category_block nr roof_repair) \<Longrightarrow>
      sublist n (generateReportText nr clk fn ln pa (roof_estimate t p r))" for n fn ln pa
    unfolding roof_report_layout by (rule sublist_inside)
  have totals: "sublist n (totals_section nr (Integer 500) (Integer 1200)) \<Longrightarrow>
      sublist n (generateReportText nr clk fn ln pa (roof_estimate t p r))" for n fn ln pa
  proof -
    assume "sublist n (totals_section nr (Integer 500) (Integer 1200))"
    then have "sublist n (totals_section nr (Integer 500) (Integer 1200) @ copyright_line (clk 1))"
      by (rule sublist_first)
    then have "sublist n ((report_header (clk 0) fn ln pa @ category_block nr roof_repair)
        @ (totals_section nr (Integer 500) (Integer 1200) @ copyright_line (clk 1)) @ [])"
      by (rule sublist_inside)
    then show ?thesis
      by (simp add: roof_report_layout)
  qed
  show ?thesis
    by (intro conjI block totals roof_block_contains roof_totals_contain)
qed

text \<open>
  Claim C3 as stated asks for \<open>Handyman Total: $500\<close> with a single space. The template
  aligns the two total lines, so three spaces follow the colon and the report of the
  example does not contain the text with one space.
\<close>

theorem roof_report_single_space_counterexample:
  "\<not> sublist (lit ''Handyman Total: $500'')
       (generateReportText sample_numbers (fixed_clock jan_15) (Some (lit ''Jane''))
          (Some (lit ''Doe'')) (Some (lit ''123 Main St'')) (roof_estimate False False False))"
  by code_simp

subsection \<open>What the report does not depend on\<close>

lemma generateReportText_categories_only:
  "repair_categories a1 = repair_categories a2 \<Longrightarrow>
   generateReportText nr clk fn ln pa a1 = generateReportText nr clk fn ln pa a2"
  by (simp only: generateReportText_layout)

text \<open>
  Claim C10. The report of the handler is generated from the first name, the last name,
  the property address, the categories of the estimate and the clock. Two submissions
  that agree on these and differ in email, phone or any of the three flags get the same
  report.
\<close>

theorem report_independent_of_contact_and_flags:
  assumes "firstName r1 = firstName r2" and "lastName r1 = lastName r2"
    and "propertyAddress r1 = propertyAddress r2"
    and "repair_categories a1 = repair_categories a2"
  shows "generateReportText nr clk (firstName r1) (lastName r1) (propertyAddress r1) a1 =
         generateReportText nr clk (firstName r2) (lastName r2) (propertyAddress r2) a2"
proof -
  have "generateReportText nr clk (firstName r1) (lastName r1) (propertyAddress r1) a1 =
        generateReportText nr clk (firstName r1) (lastName r1) (propertyAddress r1) a2"
    using assms(4) by (rule generateReportText_categories_only)
  then show ?thesis
    by (simp only: assms(1-3))
qed

theorem report_independent_of_contact_and_flags_witness:
  "email jane \<noteq> email (jane\<lparr>email := Some (lit ''doe@example.org''), phone := None\<rparr>)
   \<and> phone jane \<noteq> phone (jane\<lparr>email := Some (lit ''doe@example.org''), phone := None\<rparr>)
   \<and> roof_estimate False False False \<noteq> roof_estimate True True True
   \<and> generateReportText sample_numbers (fixed_clock jan_15) (firstName jane) (lastName jane)
        (propertyAddress jane) (roof_estimate False False False)
     = generateReportText sample_numbers (fixed_clock jan_15)
        (firstName (jane\<lparr>email := Some (lit ''doe@example.org''), phone := None\<rparr>))
        (lastName (jane\<lparr>email := Some (lit ''doe@example.org''), phone := None\<rparr>))
        (propertyAddress (jane\<lparr>email := Some (lit ''doe@example.org''), phone := None\<rparr>))
        (roof_estimate True True True)"
proof -
  let ?r = "jane\<lparr>email := Some (lit ''doe@example.org''), phone := None\<rparr>"
  have contact1: "email jane \<noteq> email ?r"
    by (simp add: jane_def lit_def)
  have contact2: "phone jane \<noteq> phone ?r"
    by (simp add: jane_def)
  have flags: "roof_estimate False False False \<noteq> roof_estimate True True True"
    by (simp add: roof_estimate_def)
  have same: "firstName jane = firstName ?r" "lastName jane = lastName ?r"
    "propertyAddress jane = propertyAddress ?r"
    "repair_categories (roof_estimate False False False) =
     repair_categories (roof_estimate True True True)"
    by (simp_all add: roof_estimate_def)
  show ?thesis
    by (rule conjI [OF contact1 conjI [OF contact2 conjI [OF flags
          report_independent_of_contact_and_flags [OF same]]]])
qed

section \<open>Properties of the handler\<close>

subsection \<open>The text sent to the analyzer\<close>



subsection \<open>The outcome of a run\<close>

lemmas handler_defs =
  process_report_def try_block_def deliver_report_def sendClientEmail_def sendAdminEmail_def
  sendGreenMantisEmail_def transporter_sendMail_def db_run_insert_def
  process_exits_def after_answer_def send_resolves_def send_throws_def
  client_mail_of_def admin_mail_of_def lead_mail_of_def report_of_def
  success_response_def failure_response_def

lemma process_report_without_analysis:
  "request_analysis sv req = Inl err \<Longrightarrow>
   process_report sv req s = (Some (failure_response err), s\<lparr>console := console s @ [err]\<rparr>)"
  by (simp add: handler_defs)

lemma run_rows_delivery:
  "request_analysis sv req = Inr a \<Longrightarrow>
   run_rows sv req s =
     (case db_run sv (insert_row sv req a) of None \<Rightarrow> [insert_row sv req a] | Some e \<Rightarrow> [])"
  by (simp add: run_rows_def handler_defs Let_def split: option.splits)

lemma run_mails_delivery:
  "request_analysis sv req = Inr a \<Longrightarrow>
   run_mails sv req s =
     client_mail_of sv req a #
       (if send_resolves sv req a 0 (client_mail_of sv req a)
        then admin_mail_of sv req a #
               (if send_resolves sv req a 1 (admin_mail_of sv req a)
                then (if termites_mentioned a \<or> pests_mentioned a
                      then [lead_mail_of sv req a] else [])
                else [])
        else [])"
  by (simp add: run_mails_def handler_defs Let_def split: option.splits)

lemma response_delivery:
  "request_analysis sv req = Inr a \<Longrightarrow>
   fst (process_report sv req s) =
     (if error_event_during sv (insert_row sv req a) 0 then None
      else
        (case sendMail sv (client_mail_of sv req a) of
           Some e \<Rightarrow> Some (failure_response e)
         | None \<Rightarrow>
             if error_event_during sv (insert_row sv req a) 1 then None
             else
               (case sendMail sv (admin_mail_of sv req a) of
                  Some e \<Rightarrow> Some (failure_response e)
                | None \<Rightarrow>
                    if termites_mentioned a \<or> pests_mentioned a
                    then
                      (if error_event_during sv (insert_row sv req a) 2 then None
                       else
                         (case sendMail sv (lead_mail_of sv req a) of
                            Some e \<Rightarrow> Some (failure_response e)
                          | None \<Rightarrow> Some (success_response (report_of sv req a))))
                    else Some (success_response (report_of sv req a)))))"
  by (simp add: handler_defs Let_def split: option.splits)


lemma lead_mail_is_not_client_mail: "lead_mail_of sv req a \<noteq> client_mail_of sv req a'"
proof
  assume "lead_mail_of sv req a = client_mail_of sv req a'"
  then have "attachments (lead_mail_of sv req a) = attachments (client_mail_of sv req a')"
    by simp
  then show False
    by (simp add: lead_mail_of_def client_mail_of_def green_mantis_mail_def client_mail_def)
qed

lemma lead_mail_is_not_admin_mail: "lead_mail_of sv req a \<noteq> admin_mail_of sv req a'"
proof
  assume "lead_mail_of sv req a = admin_mail_of sv req a'"
  then have "subject (lead_mail_of sv req a) = subject (admin_mail_of sv req a')"
    by simp
  then show False
    by (simp add: lead_mail_of_def admin_mail_of_def green_mantis_mail_def admin_mail_def)
qed

lemma admin_mail_is_not_client_mail: "admin_mail_of sv req a \<noteq> client_mail_of sv req a'"
  by (simp add: admin_mail_of_def client_mail_of_def admin_mail_def client_mail_def)

subsection \<open>The sample runs\<close>

lemma sample_request_analysis:
  "request_analysis (sample_services parsed insert_outcome delay send_outcome) jane = parsed"
  by (simp add: request_analysis_def sample_services_def jane_def)

lemma sample_sendMail:
  "sendMail (sample_services parsed insert_outcome delay send_outcome) m = send_outcome m"
  by (simp add: sample_services_def)

lemma sample_db_run:
  "db_run (sample_services parsed insert_outcome delay send_outcome) row = insert_outcome"
  by (simp add: sample_services_def)


subsection \<open>A reply that is not JSON\<close>

text \<open>
  Claim C5. When the upload is read, the text extracted and the analyzer has replied, and
  \<open>JSON.parse\<close> throws on the text of the reply, the handler answers with status 500 and
  the message of the error. No report is generated: the answer carries the error message
  only and no mail is handed to the transporter. No row is written: the table is as it was
  before the request. Only the console has the error appended.
\<close>

theorem unparseable_reply_fails_without_effects:
  assumes "file_field req = Some upl"
    and "pdfParse sv (buffer upl) = Inr pdfText"
    and "messages_create sv (analysis_request pdfText) = Inr reply"
    and "content_blocks reply = block # rest"
    and "JSON_parse sv (String_of (text_field block)) = Inl err"
  shows "process_report sv req s =
           (Some \<lparr>status = 500, body = Error_message (message err)\<rparr>,
            s\<lparr>console := console s @ [err]\<rparr>)
         \<and> reports (snd (process_report sv req s)) = reports s
         \<and> sendMail_calls (snd (process_report sv req s)) = sendMail_calls s
         \<and> run_rows sv req s = [] \<and> run_mails sv req s = []"
proof -
  have "request_analysis sv req = Inl err"
    using assms by (simp add: request_analysis_def)
  then have "process_report sv req s =
      (Some \<lparr>status = 500, body = Error_message (message err)\<rparr>,
       s\<lparr>console := console s @ [err]\<rparr>)"
    by (simp add: process_report_without_analysis failure_response_def)
  then show ?thesis
    by (simp add: run_rows_def run_mails_def)
qed

theorem unparseable_reply_fails_without_effects_witness:
  "process_report services_unparseable jane idle =
     (Some \<lparr>status = 500, body = Error_message (lit ''Unexpected end of JSON input'')\<rparr>,
      idle\<lparr>console := console idle @ [Error (lit ''Unexpected end of JSON input'')]\<rparr>)
   \<and> reports (snd (process_report services_unparseable jane idle)) = reports idle
   \<and> sendMail_calls (snd (process_report services_unparseable jane idle)) = sendMail_calls idle
   \<and> run_rows services_unparseable jane idle = []
   \<and> run_mails services_unparseable jane idle = []"
proof -
  let ?reply = "\<lparr>content_blocks = [\<lparr>text_field = Some (lit ''{}'')\<rparr>]\<rparr>"
  have a1: "file_field jane = Some \<lparr>buffer = [0x25, 0x50, 0x44, 0x46]\<rparr>"
    by (simp add: jane_def)
  have a2: "pdfParse services_unparseable (buffer \<lparr>buffer = [0x25, 0x50, 0x44, 0x46]\<rparr>) =
      Inr (lit ''3.2 Roof: missing shingles'')"
    by (simp add: services_unparseable_def sample_services_def)
  have a3: "messages_create services_unparseable
      (analysis_request (lit ''3.2 Roof: missing shingles'')) = Inr ?reply"
    by (simp add: services_unparseable_def sample_services_def)
  have a4: "content_blocks ?reply = \<lparr>text_field = Some (lit ''{}'')\<rparr> # []"
    by simp
  have a5: "JSON_parse services_unparseable (String_of (text_field \<lparr>text_field = Some (lit ''{}'')\<rparr>)) =
      Inl (Error (lit ''Unexpected end of JSON input''))"
    by (simp add: services_unparseable_def sample_services_def)
  from unparseable_reply_fails_without_effects [OF a1 a2 a3 a4 a5, of idle]
  show ?thesis
    by simp
qed

subsection \<open>The stored row\<close>

text \<open>
  Claim C8, as amended. Every row a run writes to the table comes from a run whose analysis
  succeeded and holds the five identity fields of the request, the estimate serialised by
  \<open>JSON.stringify\<close> and the three flags of the estimate. The INSERT names neither
  \<open>payment_id\<close> nor \<open>payment_amount\<close>, so both columns are NULL in the row.
\<close>

theorem stored_row_contents:
  assumes "row \<in> set (run_rows sv req s)"
  shows "\<exists>a. request_analysis sv req = Inr a
           \<and> first_name row = firstName req
           \<and> last_name row = lastName req
           \<and> email_col row = email req
           \<and> phone_col row = phone req
           \<and> property_address row = propertyAddress req
           \<and> report_data row = Some (JSON_stringify sv a)
           \<and> termites_mentioned_col row = Some (termites_mentioned a)
           \<and> pests_mentioned_col row = Some (pests_mentioned a)
           \<and> rot_mentioned_col row = Some (rot_mentioned a)
           \<and> payment_id row = None
           \<and> payment_amount row = None"
proof (cases "request_analysis sv req")
  case (Inl err)
  then have "run_rows sv req s = []"
    by (simp add: run_rows_def process_report_without_analysis)
  with assms show ?thesis by simp
next
  case (Inr a)
  with assms have "row = insert_row sv req a"
    by (simp add: run_rows_delivery split: option.splits)
  with Inr show ?thesis
    by (simp add: insert_row_def)
qed

theorem stored_row_contents_witness:
  "insert_row (services_ok (roof_estimate False True False)) jane (roof_estimate False True False)
     \<in> set (run_rows (services_ok (roof_estimate False True False)) jane idle)
   \<and> (\<exists>a. request_analysis (services_ok (roof_estimate False True False)) jane = Inr a
         \<and> first_name (insert_row (services_ok (roof_estimate False True False)) jane
               (roof_estimate False True False)) = firstName jane
         \<and> report_data (insert_row (services_ok (roof_estimate False True False)) jane
               (roof_estimate False True False)) =
             Some (JSON_stringify (services_ok (roof_estimate False True False)) a)
         \<and> pests_mentioned_col (insert_row (services_ok (roof_estimate False True False)) jane
               (roof_estimate False True False)) = Some (pests_mentioned a)
         \<and> payment_id (insert_row (services_ok (roof_estimate False True False)) jane
               (roof_estimate False True False)) = None)"
proof -
  let ?a = "roof_estimate False True False"
  let ?sv = "services_ok ?a"
  have ok: "request_analysis ?sv jane = Inr ?a"
    by (simp add: services_ok_def sample_request_analysis)
  have written: "insert_row ?sv jane ?a \<in> set (run_rows ?sv jane idle)"
    by (simp add: run_rows_delivery [OF ok]) (simp add: services_ok_def sample_db_run)
  from stored_row_contents [OF written] written show ?thesis
    by blast
qed

text \<open>
  Claim C8 as stated asks for the payment reference and amount in every row. The row
  written for the sample submission has neither.
\<close>

theorem stored_row_without_payment_counterexample:
  "run_rows (services_ok (roof_estimate False True False)) jane idle =
     [insert_row (services_ok (roof_estimate False True False)) jane
        (roof_estimate False True False)]
   \<and> payment_id (insert_row (services_ok (roof_estimate False True False)) jane
        (roof_estimate False True False)) = None
   \<and> payment_amount (insert_row (services_ok (roof_estimate False True False)) jane
        (roof_estimate False True False)) = None"
proof -
  let ?a = "roof_estimate False True False"
  let ?sv = "services_ok ?a"
  have ok: "request_analysis ?sv jane = Inr ?a"
    by (simp add: services_ok_def sample_request_analysis)
  have written: "run_rows ?sv jane idle = [insert_row ?sv jane ?a]"
    by (simp add: run_rows_delivery [OF ok]) (simp add: services_ok_def sample_db_run)
  have missing: "payment_id (insert_row ?sv jane ?a) = None"
    "payment_amount (insert_row ?sv jane ?a) = None"
    by (simp_all add: insert_row_def)
  show ?thesis
    by (rule conjI [OF written conjI [OF missing]])
qed

subsection \<open>Failures after the analysis\<close>




text \<open>
  Claim C9. In a run whose analysis succeeds, the mails are handed to the transporter in
  the order client, admin, lead, each only after the send before it has resolved, and the
  lead mail only when termites or pests are mentioned; the first send that does not
  resolve ends the list. In particular, when the send of the client mail throws, the
  client mail is the only one handed over, neither the admin mail nor the lead mail is,
  and the handler answers with status 500 and the message of the error.
\<close>

theorem sends_in_order_until_first_failure:
  assumes "request_analysis sv req = Inr a"
  shows "run_mails sv req s =
           client_mail_of sv req a #
             (if send_resolves sv req a 0 (client_mail_of sv req a)
              then admin_mail_of sv req a #
                     (if send_resolves sv req a 1 (admin_mail_of sv req a)
                      then (if termites_mentioned a \<or> pests_mentioned a
                            then [lead_mail_of sv req a] else [])
                      else [])
              else [])
         \<and> (\<forall>err. send_throws sv req a 0 (client_mail_of sv req a) err \<longrightarrow>
               run_mails sv req s = [client_mail_of sv req a]
               \<and> admin_mail_of sv req a \<notin> set (run_mails sv req s)
               \<and> lead_mail_of sv req a \<notin> set (run_mails sv req s)
               \<and> fst (process_report sv req s) =
                   Some \<lparr>status = 500, body = Error_message (message err)\<rparr>)"
proof -
  note mails = run_mails_delivery [OF assms, of s]
  have "run_mails sv req s = [client_mail_of sv req a]
        \<and> admin_mail_of sv req a \<notin> set (run_mails sv req s)
        \<and> lead_mail_of sv req a \<notin> set (run_mails sv req s)
        \<and> fst (process_report sv req s) =
            Some \<lparr>status = 500, body = Error_message (message err)\<rparr>"
    if throws: "send_throws sv req a 0 (client_mail_of sv req a) err" for err
  proof -
    from throws have quiet: "\<not> error_event_during sv (insert_row sv req a) 0"
      and rejected: "sendMail sv (client_mail_of sv req a) = Some err"
      by (simp_all add: send_throws_def)
    have only: "run_mails sv req s = [client_mail_of sv req a]"
      by (simp add: mails send_resolves_def rejected)
    have "admin_mail_of sv req a \<noteq> client_mail_of sv req a"
      by (rule admin_mail_is_not_client_mail)
    moreover have "lead_mail_of sv req a \<noteq> client_mail_of sv req a"
      by (rule lead_mail_is_not_client_mail)
    moreover have "fst (process_report sv req s) =
        Some \<lparr>status = 500, body = Error_message (message err)\<rparr>"
      by (simp add: response_delivery [OF assms] quiet rejected failure_response_def)
    ultimately show ?thesis
      by (simp add: only)
  qed
  with mails show ?thesis
    by blast
qed

theorem sends_in_order_until_first_failure_witness:
  "request_analysis (services_mail_refused (roof_estimate True True False)) jane =
     Inr (roof_estimate True True False)
   \<and> send_throws (services_mail_refused (roof_estimate True True False)) jane
        (roof_estimate True True False) 0
        (client_mail_of (services_mail_refused (roof_estimate True True False)) jane
           (roof_estimate True True False))
        (Error (lit ''connect ECONNREFUSED''))
   \<and> run_mails (services_mail_refused (roof_estimate True True False)) jane idle =
       [client_mail_of (services_mail_refused (roof_estimate True True False)) jane
          (roof_estimate True True False)]
   \<and> fst (process_report (services_mail_refused (roof_estimate True True False)) jane idle) =
       Some \<lparr>status = 500, body = Error_message (lit ''connect ECONNREFUSED'')\<rparr>"
proof -
  let ?a = "roof_estimate True True False"
  let ?sv = "services_mail_refused ?a"
  have ok: "request_analysis ?sv jane = Inr ?a"
    by (simp add: services_mail_refused_def sample_request_analysis)
  have throws: "send_throws ?sv jane ?a 0 (client_mail_of ?sv jane ?a)
      (Error (lit ''connect ECONNREFUSED''))"
    by (simp add: send_throws_def error_event_during_def services_mail_refused_def
        sample_sendMail sample_db_run)
  from sends_in_order_until_first_failure [OF ok, of idle] throws
  have both: "run_mails ?sv jane idle = [client_mail_of ?sv jane ?a]
      \<and> fst (process_report ?sv jane idle) =
          Some \<lparr>status = 500, body = Error_message (message (Error (lit ''connect ECONNREFUSED'')))\<rparr>"
    by blast
  from both have only: "run_mails ?sv jane idle = [client_mail_of ?sv jane ?a]"
    by (rule conjunct1)
  from both have answer: "fst (process_report ?sv jane idle) =
      Some \<lparr>status = 500, body = Error_message (lit ''connect ECONNREFUSED'')\<rparr>"
    by simp
  show ?thesis
    by (rule conjI [OF ok conjI [OF throws conjI [OF only answer]]])
qed

subsection \<open>The lead mail\<close>

text \<open>
  Claim C4, as amended. In a run whose analysis succeeds, the lead mail is handed to the
  transporter exactly once when termites or pests are mentioned and the sends of the
  client mail and of the admin mail have both resolved, and not at all otherwise; in
  particular never when both flags are false, whatever the third flag is.
\<close>

theorem lead_mail_dispatch:
  assumes "request_analysis sv req = Inr a"
  shows "count_list (run_mails sv req s) (lead_mail_of sv req a) =
     (if (termites_mentioned a \<or> pests_mentioned a)
         \<and> send_resolves sv req a 0 (client_mail_of sv req a)
         \<and> send_resolves sv req a 1 (admin_mail_of sv req a)
      then 1 else 0)"
proof -
  have c: "client_mail_of sv req a \<noteq> lead_mail_of sv req a"
    using lead_mail_is_not_client_mail [of sv req a a] by (rule not_sym)
  have d: "admin_mail_of sv req a \<noteq> lead_mail_of sv req a"
    using lead_mail_is_not_admin_mail [of sv req a a] by (rule not_sym)
  show ?thesis
    by (simp add: run_mails_delivery [OF assms] c d)
qed

theorem lead_mail_dispatch_witness:
  "request_analysis (services_ok (roof_estimate False True False)) jane =
     Inr (roof_estimate False True False)
   \<and> count_list (run_mails (services_ok (roof_estimate False True False)) jane idle)
       (lead_mail_of (services_ok (roof_estimate False True False)) jane
          (roof_estimate False True False)) = 1"
proof -
  let ?a = "roof_estimate False True False"
  let ?sv = "services_ok ?a"
  have ok: "request_analysis ?sv jane = Inr ?a"
    by (simp add: services_ok_def sample_request_analysis)
  have sent: "send_resolves ?sv jane ?a 0 (client_mail_of ?sv jane ?a)"
    "send_resolves ?sv jane ?a 1 (admin_mail_of ?sv jane ?a)"
    by (simp_all add: send_resolves_def error_event_during_def services_ok_def sample_sendMail
        sample_db_run)
  have flag: "termites_mentioned ?a \<or> pests_mentioned ?a"
    by (simp add: roof_estimate_def)
  have "count_list (run_mails ?sv jane idle) (lead_mail_of ?sv jane ?a) =
     (if (termites_mentioned ?a \<or> pests_mentioned ?a)
         \<and> send_resolves ?sv jane ?a 0 (client_mail_of ?sv jane ?a)
         \<and> send_resolves ?sv jane ?a 1 (admin_mail_of ?sv jane ?a)
      then 1 else 0)"
    by (rule lead_mail_dispatch [OF ok])
  also have "\<dots> = 1"
    using sent flag by simp
  finally have once: "count_list (run_mails ?sv jane idle) (lead_mail_of ?sv jane ?a) = 1" .
  show ?thesis
    by (rule conjI [OF ok once])
qed

text \<open>
  Claim C4 as stated has the lead mail dispatched in every run that reaches the
  notification stage with one of the two flags set. In the run below termites are
  mentioned and the stage is reached, the client mail is handed over and refused, and the
  lead mail is not dispatched.
\<close>

theorem lead_mail_after_failed_send_counterexample:
  "request_analysis (services_mail_refused (roof_estimate True False False)) jane =
     Inr (roof_estimate True False False)
   \<and> termites_mentioned (roof_estimate True False False)
   \<and> run_mails (services_mail_refused (roof_estimate True False False)) jane idle =
       [client_mail_of (services_mail_refused (roof_estimate True False False)) jane
          (roof_estimate True False False)]
   \<and> count_list (run_mails (services_mail_refused (roof_estimate True False False)) jane idle)
       (lead_mail_of (services_mail_refused (roof_estimate True False False)) jane
          (roof_estimate True False False)) = 0"
proof -
  let ?a = "roof_estimate True False False"
  let ?sv = "services_mail_refused ?a"
  have ok: "request_analysis ?sv jane = Inr ?a"
    by (simp add: services_mail_refused_def sample_request_analysis)
  have flag: "termites_mentioned ?a"
    by (simp add: roof_estimate_def)
  have refused: "\<not> send_resolves ?sv jane ?a 0 (client_mail_of ?sv jane ?a)"
    by (simp add: send_resolves_def services_mail_refused_def sample_sendMail)
  have mails: "run_mails ?sv jane idle = [client_mail_of ?sv jane ?a]"
    by (simp add: run_mails_delivery [OF ok] refused)
  have "client_mail_of ?sv jane ?a \<noteq> lead_mail_of ?sv jane ?a"
    using lead_mail_is_not_client_mail [of ?sv jane ?a ?a] by (rule not_sym)
  then have none: "count_list (run_mails ?sv jane idle) (lead_mail_of ?sv jane ?a) = 0"
    by (simp add: mails)
  show ?thesis
    by (rule conjI [OF ok conjI [OF flag conjI [OF mails none]]])
qed

end
